theory Spec2Isabelle
  imports Complex_Main
begin

section \<open>Track compatibility rules\<close>

text \<open>
  \<^verbatim>\<open>areTypesCompatible\<close> of \<^verbatim>\<open>timeline-grid.jsx\<close> (lines 479-495). Overlay kinds are
  JavaScript strings, compared with \<^verbatim>\<open>===\<close> and \<^verbatim>\<open>Array.prototype.includes\<close>; they are
  modelled as \<^typ>\<open>string\<close>, the three literal arrays as lists.
\<close>

definition videoTypes :: "string list" where
  "videoTypes = [''video'']"

definition audioTypes :: "string list" where
  "audioTypes = [''audio'']"

definition imageTypes :: "string list" where
  "imageTypes = [''imageUrl'', ''image'']"

definition areTypesCompatible :: "string \<Rightarrow> string \<Rightarrow> bool" where
  "areTypesCompatible type1 type2 =
     (if type1 = ''text'' \<or> type2 = ''text'' then type1 = ''text'' \<and> type2 = ''text''
      else if type1 = ''animation'' \<or> type2 = ''animation'' then True
      else
        let v1 = type1 \<in> set videoTypes; v2 = type2 \<in> set videoTypes;
            a1 = type1 \<in> set audioTypes; a2 = type2 \<in> set audioTypes;
            i1 = type1 \<in> set imageTypes; i2 = type2 \<in> set imageTypes
        in if v1 \<and> (a2 \<or> i2) then False
           else if v2 \<and> (a1 \<or> i1) then False
           else if a1 \<and> (v2 \<or> i2) then False
           else if a2 \<and> (v1 \<or> i1) then False
           else if i1 \<and> (v2 \<or> a2) then False
           else if i2 \<and> (v1 \<or> a1) then False
           else i1 \<and> i2)"

section \<open>Ruler marker generator\<close>

text \<open>
  \<^verbatim>\<open>rulerMarkers\<close> of the \<^verbatim>\<open>TimelineRuler\<close> component (lines 644-735). JavaScript numbers
  are modelled as exact rationals: the values the properties below evaluate (whole seconds,
  whole milliseconds, percentages 0 and 100) are integers far below \<open>2^53\<close>, where double
  arithmetic is exact. \<^verbatim>\<open>NaN\<close> and the infinities are not values of the model; a falsy
  number (\<^verbatim>\<open>!store.maxTime\<close>, \<^verbatim>\<open>store.fps || 30\<close>) is the number \<open>0\<close>.
\<close>

record RulerMarker =
  time :: rat
  timeMs :: rat
  position :: rat
  frame :: "int option"
  isMajor :: bool
  isMinor :: bool
  isFrame :: bool

text \<open>
  The remainder operator \<^verbatim>\<open>a % b\<close> on numbers: the quotient is truncated towards zero,
  and the result is \<^verbatim>\<open>NaN\<close> (here \<open>None\<close>) when \<open>b\<close> is zero, so that
  \<^verbatim>\<open>a % b === 0\<close> is \<open>jsRemainder a b = Some 0\<close>.
\<close>

definition jsRemainder :: "rat \<Rightarrow> rat \<Rightarrow> rat option" where
  "jsRemainder a b =
     (if b = 0 then None
      else Some (a - b * of_int (if 0 \<le> a / b then \<lfloor>a / b\<rfloor> else \<lceil>a / b\<rceil>)))"

text \<open>
  The two \<^verbatim>\<open>for\<close> loops push one marker per iteration onto \<^verbatim>\<open>markers\<close>. The step is
  a parameter here, so the loops are partial functions: a run that never leaves the loop
  has the value \<open>None\<close>.
\<close>

partial_function (option) frameLoop ::
  "rat \<Rightarrow> rat \<Rightarrow> rat \<Rightarrow> int \<Rightarrow> int \<Rightarrow> int \<Rightarrow> RulerMarker list \<Rightarrow> RulerMarker list option"
where
  "frameLoop maxTime fps frameDuration maxFrames frameInterval frameNo markers =
     (if frameNo \<le> maxFrames then
        let timeSeconds = of_int frameNo * frameDuration;
            timeMs = timeSeconds * 1000;
            position = (timeMs / maxTime) * 100;
            isMajor = (jsRemainder (of_int frameNo) fps = Some 0);
            isMinor = (jsRemainder (of_int frameNo) (fps / 3) = Some 0)
        in frameLoop maxTime fps frameDuration maxFrames frameInterval (frameNo + frameInterval)
             (markers @ [\<lparr>time = timeSeconds, timeMs = timeMs, position = position,
                           frame = Some frameNo, isMajor = isMajor, isMinor = isMinor,
                           isFrame = True\<rparr>])
      else Some markers)"

partial_function (option) timeLoop ::
  "rat \<Rightarrow> rat \<Rightarrow> rat \<Rightarrow> rat \<Rightarrow> RulerMarker list \<Rightarrow> RulerMarker list option"
where
  "timeLoop maxTime maxTimeSeconds intervalSeconds timeS markers =
     (if timeS \<le> maxTimeSeconds then
        let timeMs = timeS * 1000;
            position = (timeMs / maxTime) * 100;
            isMajor = (jsRemainder timeS (intervalSeconds * 5) = Some 0)
        in timeLoop maxTime maxTimeSeconds intervalSeconds (timeS + intervalSeconds)
             (markers @ [\<lparr>time = timeS, timeMs = timeMs, position = position,
                           frame = None, isMajor = isMajor, isMinor = \<not> isMajor,
                           isFrame = False\<rparr>])
      else Some markers)"

declare frameLoop.simps [code]
declare timeLoop.simps [code]

text \<open>
  The arguments are \<^verbatim>\<open>store.maxTime\<close> (milliseconds), \<^verbatim>\<open>store.fps\<close> and the
  \<^verbatim>\<open>scale\<close> property.
\<close>

definition rulerMarkers :: "rat \<Rightarrow> rat \<Rightarrow> rat \<Rightarrow> RulerMarker list option" where
  "rulerMarkers storeMaxTime storeFps scale =
     (if storeMaxTime = 0 then Some []
      else
        let maxTimeSeconds = storeMaxTime / 1000;
            fps = (if storeFps = 0 then 30 else storeFps);
            frameDuration = 1 / fps;
            (intervalSeconds, showFrames, frameInterval) =
              (if scale > 30 then (frameDuration, True, 1)
               else if scale > 20 then (max (frameDuration * 5) (1 / 10), True, 5)
               else if scale > 15 then (max (frameDuration * 10) (2 / 10), True, 10)
               else if scale > 10 then (1, False, 1)
               else if scale > 5 then (5, False, 1)
               else if scale > 2 then (10, False, 1)
               else if scale > 1 then (30, False, 1)
               else (60, False, 1))
        in if showFrames then
             frameLoop storeMaxTime fps frameDuration \<lceil>maxTimeSeconds * fps\<rceil>
               frameInterval 0 []
           else timeLoop storeMaxTime maxTimeSeconds intervalSeconds 0 [])"

section \<open>Ghost state and the document-level pointer handlers\<close>

text \<open>
  The fields of \<^verbatim>\<open>store.ghostState\<close> that \<^verbatim>\<open>timeline-grid.jsx\<close> reads or writes
  (lines 346-362, 377-393, 552-618). A ghost payload carries \<^verbatim>\<open>left\<close>, \<^verbatim>\<open>width\<close>,
  \<^verbatim>\<open>row\<close> and \<^verbatim>\<open>elementType\<close>; the resize ghost adds \<^verbatim>\<open>canPush\<close>, the gallery and
  file ghosts add \<^verbatim>\<open>isIncompatible\<close>, a multi-selection ghost adds \<^verbatim>\<open>id\<close>. A payload
  that is \<^verbatim>\<open>null\<close> is \<open>None\<close>. The hover indicator \<^verbatim>\<open>ghostMarkerPosition\<close>, which
  is only passed on to \<^verbatim>\<open>GhostMarker\<close> and which no handler of this file reads or
  writes, is not part of the record.
\<close>

record GhostElement =
  ghostLeft :: rat
  ghostWidth :: rat
  ghostRow :: int
  ghostElementType :: string

record ResizeGhostElement = GhostElement +
  canPush :: bool

record ExternalGhostElement = GhostElement +
  isIncompatible :: bool

record MultiGhostElement = GhostElement +
  ghostId :: string

record AlignmentLine =
  linePosition :: rat
  lineType :: "string option"
  snapGuide :: bool

record GhostState =
  isDragging :: bool
  ghostElement :: "GhostElement option"
  isIncompatibleRow :: bool
  isResizing :: bool
  resizeGhostElement :: "ResizeGhostElement option"
  isMultiDragging :: bool
  multiGhostElements :: "MultiGhostElement list"
  isGalleryDragging :: bool
  galleryGhostElement :: "ExternalGhostElement option"
  isFileDragging :: bool
  fileGhostElement :: "ExternalGhostElement option"
  alignmentLines :: "AlignmentLine list"

text \<open>
  Modelled from the spec: \<^verbatim>\<open>store.resetGhostState()\<close> is a method of the project store,
  which is not among the source files. The specification describes a full reset as
  ``all flags false, all ghost objects null, lists emptied'', and says that the alignment
  lines are cleared whenever the ghost state resets.
\<close>

definition resetGhostState :: "GhostState \<Rightarrow> GhostState" where
  "resetGhostState g =
     \<lparr>isDragging = False, ghostElement = None, isIncompatibleRow = False,
      isResizing = False, resizeGhostElement = None,
      isMultiDragging = False, multiGhostElements = [],
      isGalleryDragging = False, galleryGhostElement = None,
      isFileDragging = False, fileGhostElement = None,
      alignmentLines = []\<rparr>"

text \<open>
  \<^verbatim>\<open>getBoundingClientRect()\<close> of an element, and the pointer position of an event.
  \<^verbatim>\<open>gridRef.current\<close> is \<open>None\<close> while the grid is not mounted.
\<close>

record DOMRect =
  rectLeft :: rat
  rectRight :: rat
  rectTop :: rat
  rectBottom :: rat
  rectWidth :: rat

definition isOverGrid :: "DOMRect \<Rightarrow> rat \<Rightarrow> rat \<Rightarrow> bool" where
  "isOverGrid gridRect clientX clientY =
     (clientX \<ge> rectLeft gridRect \<and> clientX \<le> rectRight gridRect \<and>
      clientY \<ge> rectTop gridRect \<and> clientY \<le> rectBottom gridRect)"

text \<open>\<^verbatim>\<open>handleGlobalMouseMove\<close> (lines 334-363).\<close>

definition handleGlobalMouseMove ::
  "DOMRect option \<Rightarrow> rat \<Rightarrow> rat \<Rightarrow> GhostState \<Rightarrow> GhostState" where
  "handleGlobalMouseMove timelineGrid clientX clientY ghostState =
     (case timelineGrid of
        None \<Rightarrow> ghostState
      | Some gridRect \<Rightarrow>
          if \<not> isOverGrid gridRect clientX clientY then
            if isFileDragging ghostState \<or> isGalleryDragging ghostState then
              resetGhostState ghostState
            else
              let g1 = (if isDragging ghostState
                        then ghostState\<lparr>ghostElement := None\<rparr> else ghostState);
                  g2 = (if isMultiDragging g1
                        then g1\<lparr>multiGhostElements := []\<rparr> else g1)
              in g2
          else ghostState)"

text \<open>
  \<^verbatim>\<open>handleGlobalDragOver\<close> (lines 365-445). The handler reads, from the event, the pointer
  position, whether \<^verbatim>\<open>dataTransfer.types\<close> includes \<^verbatim>\<open>'Files'\<close>, whether the target
  lies inside a timeline row, and the MIME type of the first dragged item (\<open>None\<close> when
  \<^verbatim>\<open>items?.[0]?.type\<close> is \<^verbatim>\<open>undefined\<close>); from the document, the rectangle and the
  \<^verbatim>\<open>data-row-index\<close> of every row container; from its closure, the overlays (their
  \<^verbatim>\<open>row\<close> and \<^verbatim>\<open>type\<close>) and \<^verbatim>\<open>store.maxTime\<close>.
  \<^verbatim>\<open>store.updateFileGhost\<close> belongs to the store, so the model returns the arguments of
  that call next to the ghost state; \<^verbatim>\<open>newPosition\<close> is \<open>None\<close> when the grid is 0
  pixels wide, where the division gives no finite number.
\<close>

record Overlay =
  overlayRow :: int
  overlayType :: string

record DragOverEvent =
  dragClientX :: rat
  dragClientY :: rat
  typesIncludeFiles :: bool
  targetInTimelineRow :: bool
  itemType :: "string option"

datatype JsValue = JsUndefined | JsString string | JsBoolean bool

fun truthy :: "JsValue \<Rightarrow> bool" where
  "truthy JsUndefined = False"
| "truthy (JsString s) = (s \<noteq> [])"
| "truthy (JsBoolean b) = b"

record FileGhostUpdate =
  newPosition :: "rat option"
  targetRow :: int
  fileIsIncompatible :: JsValue

definition startsWith :: "string \<Rightarrow> string \<Rightarrow> bool" where
  "startsWith s p = (take (length p) s = p)"

text \<open>The row search of lines 412-424: the first container whose rectangle holds the
  pointer's \<^verbatim>\<open>clientY\<close>, row 0 when there is none.\<close>

fun findTargetRow :: "(DOMRect \<times> int) list \<Rightarrow> rat \<Rightarrow> int" where
  "findTargetRow [] clientY = 0"
| "findTargetRow ((rowRect, rowIndex) # rowContainers) clientY =
     (if clientY \<ge> rectTop rowRect \<and> clientY \<le> rectBottom rowRect then rowIndex
      else findTargetRow rowContainers clientY)"

text \<open>Lines 427-433: the kind inferred from the MIME type of the dragged item.\<close>

definition inferTargetElementType :: "string option \<Rightarrow> string" where
  "inferTargetElementType fileType =
     (case fileType of
        None \<Rightarrow> ''imageUrl''
      | Some ft \<Rightarrow>
          if startsWith ft ''audio/'' then ''audio''
          else if startsWith ft ''video/'' then ''video''
          else ''imageUrl'')"

text \<open>
  Lines 436-441: \<^verbatim>\<open>rowType && !areTypesCompatible(rowType, targetElementType)\<close>, where
  \<^verbatim>\<open>rowType\<close> is the type of the first overlay on the target row. The operator
  \<^verbatim>\<open>&&\<close> yields its left operand when that is falsy (\<^verbatim>\<open>undefined\<close> for an empty row,
  or an empty string).
\<close>

definition rowIncompatible :: "Overlay list \<Rightarrow> int \<Rightarrow> string \<Rightarrow> JsValue" where
  "rowIncompatible overlays row targetElementType =
     (case filter (\<lambda>overlay. overlayRow overlay = row) overlays of
        [] \<Rightarrow> JsUndefined
      | overlay # _ \<Rightarrow>
          let rowType = overlayType overlay
          in if rowType = [] then JsString rowType
             else JsBoolean (\<not> areTypesCompatible rowType targetElementType))"

definition handleGlobalDragOver ::
  "DOMRect option \<Rightarrow> (DOMRect \<times> int) list \<Rightarrow> Overlay list \<Rightarrow> rat \<Rightarrow>
   DragOverEvent \<Rightarrow> GhostState \<Rightarrow> GhostState \<times> FileGhostUpdate option" where
  "handleGlobalDragOver timelineGrid rowContainers overlays storeMaxTime e ghostState =
     (case timelineGrid of
        None \<Rightarrow> (ghostState, None)
      | Some gridRect \<Rightarrow>
          if \<not> isOverGrid gridRect (dragClientX e) (dragClientY e) then
            if isFileDragging ghostState \<or> isGalleryDragging ghostState then
              (resetGhostState ghostState, None)
            else
              let g1 = (if isDragging ghostState
                        then ghostState\<lparr>ghostElement := None\<rparr> else ghostState);
                  g2 = (if isMultiDragging g1
                        then g1\<lparr>multiGhostElements := []\<rparr> else g1)
              in (g2, None)
          else if isFileDragging ghostState \<and> typesIncludeFiles e then
            if targetInTimelineRow e then (ghostState, None)
            else
              let mouseX = dragClientX e - rectLeft gridRect;
                  position = (if rectWidth gridRect = 0 then None
                              else Some ((mouseX / rectWidth gridRect) * storeMaxTime));
                  row = findTargetRow rowContainers (dragClientY e);
                  targetElementType = inferTargetElementType (itemType e);
                  incompatible = rowIncompatible overlays row targetElementType
              in (ghostState,
                  Some \<lparr>newPosition = position, targetRow = row,
                         fileIsIncompatible = incompatible\<rparr>)
          else (ghostState, None))"

section \<open>Promises\<close>

text \<open>
  A promise is pending until the first call of \<^verbatim>\<open>resolve\<close> or \<^verbatim>\<open>reject\<close>; later calls
  have no effect. A rejection carries the message of its \<^verbatim>\<open>Error\<close>.
\<close>

datatype 'a Promise = Pending | Resolved 'a | Rejected string

fun resolve :: "'a \<Rightarrow> 'a Promise \<Rightarrow> 'a Promise" where
  "resolve v Pending = Resolved v"
| "resolve v p = p"

fun reject :: "string \<Rightarrow> 'a Promise \<Rightarrow> 'a Promise" where
  "reject msg Pending = Rejected msg"
| "reject msg p = p"

section \<open>Media metadata probe\<close>

text \<open>
  \<^verbatim>\<open>getVideoMetadataFromUrl\<close> (lines 899-1084). The function creates a video element,
  registers three listeners and a timer, and resolves its promise from whichever callback
  runs first. The model is the state the callbacks share and one transition per callback;
  the browser chooses which events arrive and in which order, so a run is the initial
  state followed by an arbitrary list of events.

  What a callback reads from the video element when it runs is a snapshot:
  \<^verbatim>\<open>duration\<close> (\<open>None\<close> for \<^verbatim>\<open>NaN\<close>), the truthiness of \<^verbatim>\<open>mozHasAudio\<close>,
  \<^verbatim>\<open>webkitAudioDecodedByteCount\<close> (\<open>None\<close> when it is not a number),
  \<^verbatim>\<open>audioTracks.length\<close> (\<open>None\<close> when \<^verbatim>\<open>audioTracks\<close> is undefined) and
  \<^verbatim>\<open>readyState\<close>. Durations are finite, exact rationals, as in the ruler.
\<close>

record VideoMetadata =
  durationMs :: rat
  hasAudio :: bool

record VideoSnapshot =
  videoDuration :: "rat option"
  mozHasAudio :: bool
  webkitAudioDecodedByteCount :: "rat option"
  audioTracksLength :: "nat option"
  readyState :: nat

text \<open>
  The shared state: the flag \<^verbatim>\<open>resolved\<close>, the promise, whether the timer
  \<^verbatim>\<open>timeoutId\<close> is still armed, which listeners are attached (each is registered with
  \<^verbatim>\<open>once: true\<close> and removed by \<^verbatim>\<open>cleanup\<close>), and how many of the delayed checks
  scheduled by \<^verbatim>\<open>onLoaded\<close> are still to run: the 100 ms wait for a duration, and the
  200/300 ms second look at the audio signals.
\<close>

record ProbeState =
  resolved :: bool
  promise :: "VideoMetadata Promise"
  timeoutArmed :: bool
  loadedListener :: bool
  canPlayThroughListener :: bool
  errorListener :: bool
  durationRechecks :: nat
  audioRechecks :: nat

datatype ProbeEvent =
    LoadedMetadata VideoSnapshot
  | CanPlayThrough VideoSnapshot
  | ErrorEvent
  | TimeoutFired
  | DurationRecheck VideoSnapshot
  | AudioRecheck VideoSnapshot

definition defaultMetadata :: VideoMetadata where
  "defaultMetadata = \<lparr>durationMs = 10000, hasAudio = False\<rparr>"

text \<open>\<^verbatim>\<open>cleanup\<close> (lines 913-927); the delayed removal of the element from the document
  has no effect on the promise and is left out.\<close>

definition cleanup :: "ProbeState \<Rightarrow> ProbeState" where
  "cleanup s =
     (if resolved s then s
      else s\<lparr>resolved := True, loadedListener := False, errorListener := False,
             canPlayThroughListener := False\<rparr>)"

definition clearTimeout :: "ProbeState \<Rightarrow> ProbeState" where
  "clearTimeout s = s\<lparr>timeoutArmed := False\<rparr>"

text \<open>\<^verbatim>\<open>detectAudioAndResolve\<close> (lines 936-995).\<close>

definition detectAudioAndResolve :: "VideoSnapshot \<Rightarrow> ProbeState \<Rightarrow> ProbeState" where
  "detectAudioAndResolve video s =
     (if resolved s then s
      else
        let durationSec = (case videoDuration video of None \<Rightarrow> 0 | Some d \<Rightarrow> d);
            mozAudio = mozHasAudio video;
            webkitHasAudio =
              (case webkitAudioDecodedByteCount video of None \<Rightarrow> False | Some n \<Rightarrow> n > 0);
            hasAudioTracks =
              (case audioTracksLength video of None \<Rightarrow> False | Some n \<Rightarrow> n > 0);
            audioContextCheck =
              (if readyState video \<ge> 2 then
                 (let c1 = (case audioTracksLength video of
                              None \<Rightarrow> False | Some n \<Rightarrow> n > 0)
                  in if mozHasAudio video \<or>
                        (case webkitAudioDecodedByteCount video of
                           None \<Rightarrow> False | Some n \<Rightarrow> n > 0)
                     then True else c1)
               else False);
            detectedAudio0 = (mozAudio \<or> webkitHasAudio \<or> hasAudioTracks \<or> audioContextCheck);
            detectedAudio = (if \<not> detectedAudio0 \<and> durationSec > 0 then True
                             else detectedAudio0);
            s1 = cleanup (clearTimeout s)
        in s1\<lparr>promise :=
                 resolve \<lparr>durationMs = (if durationSec > 0 then durationSec * 1000 else 10000),
                          hasAudio = detectedAudio\<rparr> (promise s1)\<rparr>)"

text \<open>
  \<^verbatim>\<open>onLoaded\<close> (lines 997-1031). With a duration that is missing or not positive it only
  schedules the 100 ms check. Otherwise it detects at once and schedules a second look,
  after 300 ms for a \<^verbatim>\<open>blob:\<close> URL and after 200 ms for any other; the two branches
  differ in the delay only.
\<close>

definition onLoaded :: "string \<Rightarrow> VideoSnapshot \<Rightarrow> ProbeState \<Rightarrow> ProbeState" where
  "onLoaded url video s =
     (if resolved s then s
      else if (case videoDuration video of None \<Rightarrow> True | Some d \<Rightarrow> d = 0 \<or> d \<le> 0) then
        s\<lparr>durationRechecks := durationRechecks s + 1\<rparr>
      else if startsWith url ''blob:'' then
        (let s1 = detectAudioAndResolve video s
         in s1\<lparr>audioRechecks := audioRechecks s1 + 1\<rparr>)
      else
        (let s1 = detectAudioAndResolve video s
         in s1\<lparr>audioRechecks := audioRechecks s1 + 1\<rparr>))"

text \<open>\<^verbatim>\<open>onCanPlayThrough\<close> (lines 1033-1038).\<close>

definition onCanPlayThrough :: "string \<Rightarrow> VideoSnapshot \<Rightarrow> ProbeState \<Rightarrow> ProbeState" where
  "onCanPlayThrough url video s =
     (if \<not> resolved s \<and> readyState video \<ge> 2 then onLoaded url video s else s)"

text \<open>\<^verbatim>\<open>onError\<close> (lines 1040-1050).\<close>

definition onError :: "ProbeState \<Rightarrow> ProbeState" where
  "onError s =
     (if resolved s then s
      else
        let s1 = cleanup (clearTimeout s)
        in s1\<lparr>promise := resolve \<lparr>durationMs = 10000, hasAudio = False\<rparr> (promise s1)\<rparr>)"

text \<open>The callback of the timer \<^verbatim>\<open>timeoutId\<close> (lines 929-934).\<close>

definition onTimeout :: "ProbeState \<Rightarrow> ProbeState" where
  "onTimeout s =
     (if \<not> resolved s then
        let s1 = cleanup s
        in s1\<lparr>promise := resolve \<lparr>durationMs = 10000, hasAudio = False\<rparr> (promise s1)\<rparr>
      else s)"

text \<open>The delayed checks scheduled by \<^verbatim>\<open>onLoaded\<close> (lines 1003-1007, 1017-1021 and
  1025-1029).\<close>

definition onDurationRecheck :: "VideoSnapshot \<Rightarrow> ProbeState \<Rightarrow> ProbeState" where
  "onDurationRecheck video s =
     (if \<not> resolved s \<and> (case videoDuration video of None \<Rightarrow> False | Some d \<Rightarrow> d > 0)
      then detectAudioAndResolve video s else s)"

definition onAudioRecheck :: "VideoSnapshot \<Rightarrow> ProbeState \<Rightarrow> ProbeState" where
  "onAudioRecheck video s =
     (if \<not> resolved s \<and> readyState video \<ge> 2
      then detectAudioAndResolve video s else s)"

text \<open>
  One event of the browser. An event whose listener is not attached, and a timer that is
  not pending, runs no code. A listener registered with \<^verbatim>\<open>once: true\<close> is detached
  before it runs.
\<close>

fun probeStep :: "string \<Rightarrow> ProbeState \<Rightarrow> ProbeEvent \<Rightarrow> ProbeState" where
  "probeStep url s (LoadedMetadata video) =
     (if loadedListener s then onLoaded url video (s\<lparr>loadedListener := False\<rparr>) else s)"
| "probeStep url s (CanPlayThrough video) =
     (if canPlayThroughListener s
      then onCanPlayThrough url video (s\<lparr>canPlayThroughListener := False\<rparr>) else s)"
| "probeStep url s ErrorEvent =
     (if errorListener s then onError (s\<lparr>errorListener := False\<rparr>) else s)"
| "probeStep url s TimeoutFired =
     (if timeoutArmed s then onTimeout (s\<lparr>timeoutArmed := False\<rparr>) else s)"
| "probeStep url s (DurationRecheck video) =
     (if durationRechecks s > 0
      then onDurationRecheck video (s\<lparr>durationRechecks := durationRechecks s - 1\<rparr>) else s)"
| "probeStep url s (AudioRecheck video) =
     (if audioRechecks s > 0
      then onAudioRecheck video (s\<lparr>audioRechecks := audioRechecks s - 1\<rparr>) else s)"

text \<open>
  The body of the promise executor (lines 900-1083). A falsy \<^verbatim>\<open>url\<close> (\<open>None\<close> for
  \<^verbatim>\<open>undefined\<close> or \<^verbatim>\<open>null\<close>, or the empty string) resolves at once and registers
  nothing. \<^verbatim>\<open>srcThrows\<close> says whether the \<^verbatim>\<open>try\<close> block that sets \<^verbatim>\<open>video.src\<close>
  and calls \<^verbatim>\<open>video.load()\<close> throws (as \<^verbatim>\<open>url.startsWith\<close> does for a truthy
  \<^verbatim>\<open>url\<close> that is not a string). The statements before that block, which create the
  element, register the listeners and append the element to the document, are taken not to
  throw.
\<close>

definition probeStart :: "string option \<Rightarrow> bool \<Rightarrow> ProbeState" where
  "probeStart url srcThrows =
     (if url = None \<or> url = Some [] then
        \<lparr>resolved = False,
         promise = resolve \<lparr>durationMs = 10000, hasAudio = False\<rparr> Pending,
         timeoutArmed = False, loadedListener = False, canPlayThroughListener = False,
         errorListener = False, durationRechecks = 0, audioRechecks = 0\<rparr>
      else
        let s0 = \<lparr>resolved = False, promise = Pending, timeoutArmed = True,
                  loadedListener = True, canPlayThroughListener = True,
                  errorListener = True, durationRechecks = 0, audioRechecks = 0\<rparr>
        in if srcThrows then
             (let s1 = cleanup (clearTimeout s0)
              in s1\<lparr>promise := resolve \<lparr>durationMs = 10000, hasAudio = False\<rparr> (promise s1)\<rparr>)
           else s0)"

text \<open>
  \<^verbatim>\<open>getVideoMetadataFromUrl(url)\<close> followed by the events \<open>events\<close>: the promise it
  returned, as it stands after the last of them.
\<close>

definition getVideoMetadataFromUrl ::
  "string option \<Rightarrow> bool \<Rightarrow> ProbeEvent list \<Rightarrow> VideoMetadata Promise" where
  "getVideoMetadataFromUrl url srcThrows events =
     promise (foldl (probeStep (case url of None \<Rightarrow> [] | Some u \<Rightarrow> u))
                (probeStart url srcThrows) events)"

text \<open>
  What holds of the shared state after any events, when the URL is truthy: while the promise
  is pending, \<^verbatim>\<open>resolved\<close> is false, the timer is armed and the error listener is
  attached; once it is settled, \<^verbatim>\<open>resolved\<close> is true; it is never rejected.
\<close>

definition probeInv :: "ProbeState \<Rightarrow> bool" where
  "probeInv s =
     (case promise s of
        Pending \<Rightarrow> \<not> resolved s \<and> timeoutArmed s \<and> errorListener s
      | Resolved v \<Rightarrow> resolved s
      | Rejected msg \<Rightarrow> False)"

section \<open>Audio duration probe\<close>

text \<open>
  \<^verbatim>\<open>getAudioDurationSeconds\<close> (lines 40-65): an \<^verbatim>\<open>Audio\<close> element with two handlers
  and a timer of 5000 ms, modelled like the video probe. Each event carries the value of
  \<^verbatim>\<open>audio.duration\<close> that its callback reads (\<open>None\<close> for \<^verbatim>\<open>NaN\<close>). The handlers
  are assigned as properties, so they stay attached; the timer runs once, and the state
  holds its delay in milliseconds while it is armed.
\<close>

record AudioProbeState =
  audioPromise :: "rat Promise"
  audioTimer :: "nat option"

datatype AudioEvent =
    AudioLoadedMetadata "rat option"
  | AudioErrorEvent
  | AudioTimerFired "rat option"

fun audioStep :: "AudioProbeState \<Rightarrow> AudioEvent \<Rightarrow> AudioProbeState" where
  "audioStep s (AudioLoadedMetadata duration) =
     s\<lparr>audioPromise :=
         resolve (case duration of None \<Rightarrow> 0 | Some d \<Rightarrow> if d = 0 then 0 else d)
           (audioPromise s)\<rparr>"
| "audioStep s AudioErrorEvent =
     s\<lparr>audioPromise := reject ''Audio file upload error'' (audioPromise s)\<rparr>"
| "audioStep s (AudioTimerFired duration) =
     (if audioTimer s \<noteq> None then
        (if duration = None \<or> duration = Some 0 then
           s\<lparr>audioTimer := None,
             audioPromise :=
               reject ''Audio duration determination timeout'' (audioPromise s)\<rparr>
         else s\<lparr>audioTimer := None\<rparr>)
      else s)"

definition audioProbeStart :: AudioProbeState where
  "audioProbeStart = \<lparr>audioPromise = Pending, audioTimer = Some 5000\<rparr>"

definition getAudioDurationSeconds :: "AudioEvent list \<Rightarrow> rat Promise" where
  "getAudioDurationSeconds events =
     audioPromise (foldl audioStep audioProbeStart events)"

text \<open>
  \<^verbatim>\<open>await\<close> on a promise: the value, the exception thrown for a rejection, or \<open>None\<close>
  when the promise is never settled and the caller never resumes.
\<close>

fun await :: "'a Promise \<Rightarrow> (string + 'a) option" where
  "await Pending = None"
| "await (Resolved v) = Some (Inr v)"
| "await (Rejected msg) = Some (Inl msg)"

section \<open>Drop pipeline\<close>

text \<open>
  The body of the loop over the accepted files in \<^verbatim>\<open>handleDrop\<close> (lines 154-308), from
  the upload result on. The project store is not among the source files: the model keeps
  \<^verbatim>\<open>store.maxRows\<close>, which the handler assigns, and the list of the calls that create
  overlays, with their arguments. What the store's query methods answer, whether its
  mutating methods throw, and what the browser reports to the two probes while this file
  is processed are inputs, collected in the environment. Toasts are recorded by kind and
  file name; console output is left out.
\<close>

record UploadResult =
  resultUrl :: "string option"
  resultFileUrl :: "string option"
  resultThumbnail :: "string option"
  resultDuration :: "rat option"
  resultKey :: "string option"

record DroppedFile =
  fileName :: string
  objectUrl :: string

record ImageArgs =
  imgUrl :: string
  imgMinUrl :: string
  imgRow :: int
  imgStartTime :: rat

record AudioArgs =
  audBase64Audio :: string
  audDurationMs :: rat
  audRow :: int
  audStartTime :: rat
  audAudioType :: string
  audDuration :: rat
  audId :: string
  audName :: string

record VideoArgs =
  vidUrl :: string
  vidTitle :: string
  vidKey :: "string option"
  vidDuration :: rat
  vidRow :: int
  vidStartTime :: rat
  vidIsNeedLoader :: bool
  vidHasSeparateAudio :: bool

datatype StoreCall =
    AddImageLocal ImageArgs
  | AddExistingAudio AudioArgs
  | HandleVideoUploadFromUrl VideoArgs

record TimelineStore =
  maxRows :: int
  storeCalls :: "StoreCall list"

record DropEnvironment =
  dedicatedImageTrackRow :: int
  dedicatedAudioTrackRow :: int
  dedicatedVideoTrackRow :: int
  lastImageEndTime :: "int \<Rightarrow> rat"
  lastAudioEndTime :: rat
  lastVideoEndTime :: rat
  addImageLocalThrows :: bool
  addExistingAudioThrows :: bool
  handleVideoUploadFromUrlThrows :: bool
  freshId :: string
  audioEvents :: "AudioEvent list"
  probeSrcThrows :: bool
  probeEvents :: "ProbeEvent list"

datatype Toast =
    AddedImage string
  | AddedAudio string
  | AddedVideo string
  | AddedVideoAndAudio string
  | AudioExtractionFailed string
  | FailedToUpload string
  | UnsupportedFileType string

text \<open>\<^verbatim>\<open>a || b\<close> on an optional string: \<^verbatim>\<open>undefined\<close> and the empty string are falsy.\<close>

fun orElse :: "string option \<Rightarrow> string \<Rightarrow> string" where
  "orElse None b = b"
| "orElse (Some a) b = (if a = [] then b else a)"

text \<open>Lines 179-182.\<close>

definition uploadedUrlOf :: "UploadResult \<Rightarrow> DroppedFile \<Rightarrow> string" where
  "uploadedUrlOf uploadResult file =
     orElse (resultUrl uploadResult) (orElse (resultFileUrl uploadResult) (objectUrl file))"

text \<open>Lines 184-196: an image goes to the dedicated image row, after the last image there.\<close>

definition dropImage ::
  "DropEnvironment \<Rightarrow> DroppedFile \<Rightarrow> UploadResult \<Rightarrow> TimelineStore \<Rightarrow>
   (TimelineStore \<times> Toast list) option" where
  "dropImage env file uploadResult store =
     (let uploadedUrl = uploadedUrlOf uploadResult file;
          imageRow = dedicatedImageTrackRow env;
          store1 = (if imageRow \<ge> maxRows store
                    then store\<lparr>maxRows := imageRow + 1\<rparr> else store);
          lastImageEnd = lastImageEndTime env imageRow;
          startTime = lastImageEnd;
          store2 = store1\<lparr>storeCalls := storeCalls store1 @
                     [AddImageLocal
                        \<lparr>imgUrl = uploadedUrl,
                         imgMinUrl = orElse (resultThumbnail uploadResult) uploadedUrl,
                         imgRow = imageRow, imgStartTime = startTime\<rparr>]\<rparr>
      in if addImageLocalThrows env then Some (store2, [FailedToUpload (fileName file)])
         else Some (store2, [AddedImage (fileName file)]))"

text \<open>
  Lines 198-208: the duration of a dropped audio file. \<open>None\<close> means that the promise
  of \<^verbatim>\<open>getAudioDurationSeconds\<close> is never settled, so \<^verbatim>\<open>handleDrop\<close> never resumes.
\<close>

definition audioDurationMs :: "UploadResult \<Rightarrow> AudioEvent list \<Rightarrow> rat option" where
  "audioDurationMs uploadResult events =
     (case resultDuration uploadResult of
        Some duration \<Rightarrow> Some (duration * 1000)
      | None \<Rightarrow>
          (case await (getAudioDurationSeconds events) of
             None \<Rightarrow> None
           | Some (Inr durationSec) \<Rightarrow> Some (max 1000 (durationSec * 1000))
           | Some (Inl err) \<Rightarrow> Some 5000))"

text \<open>Lines 197-222.\<close>

definition dropAudio ::
  "DropEnvironment \<Rightarrow> DroppedFile \<Rightarrow> UploadResult \<Rightarrow> TimelineStore \<Rightarrow>
   (TimelineStore \<times> Toast list) option" where
  "dropAudio env file uploadResult store =
     (case audioDurationMs uploadResult (audioEvents env) of
        None \<Rightarrow> None
      | Some durMs \<Rightarrow>
          let uploadedUrl = uploadedUrlOf uploadResult file;
              audioRow = dedicatedAudioTrackRow env;
              store1 = (if audioRow \<ge> maxRows store
                        then store\<lparr>maxRows := audioRow + 1\<rparr> else store);
              startTime = lastAudioEndTime env;
              store2 = store1\<lparr>storeCalls := storeCalls store1 @
                         [AddExistingAudio
                            \<lparr>audBase64Audio = uploadedUrl, audDurationMs = durMs,
                             audRow = audioRow, audStartTime = startTime,
                             audAudioType = ''music'', audDuration = durMs,
                             audId = freshId env, audName = fileName file\<rparr>]\<rparr>
          in if addExistingAudioThrows env
             then Some (store2, [FailedToUpload (fileName file)])
             else Some (store2, [AddedAudio (fileName file)]))"

text \<open>
  Lines 223-303: a video goes to the dedicated video row, after the last video; when the
  probe reports an audio track, an audio overlay for the same file follows. An exception
  of \<^verbatim>\<open>handleVideoUploadFromUrl\<close> is caught by the \<^verbatim>\<open>try\<close> around the whole file; an
  exception of \<^verbatim>\<open>addExistingAudio\<close> is caught by the inner \<^verbatim>\<open>try\<close>, after which
  the success toast is still shown.
\<close>

definition dropVideo ::
  "DropEnvironment \<Rightarrow> DroppedFile \<Rightarrow> UploadResult \<Rightarrow> TimelineStore \<Rightarrow>
   (TimelineStore \<times> Toast list) option" where
  "dropVideo env file uploadResult store =
     (let uploadedUrl = uploadedUrlOf uploadResult file
      in case await (getVideoMetadataFromUrl (Some uploadedUrl) (probeSrcThrows env)
                       (probeEvents env)) of
           None \<Rightarrow> None
         | Some outcome \<Rightarrow>
             let (durMs, audio) =
                   (case outcome of
                      Inr meta \<Rightarrow> (durationMs meta, hasAudio meta)
                    | Inl err \<Rightarrow>
                        ((case resultDuration uploadResult of
                            Some duration \<Rightarrow> duration * 1000
                          | None \<Rightarrow> 10000), False));
                 videoRow = dedicatedVideoTrackRow env;
                 audioRow0 = dedicatedAudioTrackRow env;
                 audioRow = (if audioRow0 = videoRow \<and> audio
                             then max (videoRow + 1) (maxRows store) else audioRow0);
                 store1 = (if videoRow \<ge> maxRows store
                           then store\<lparr>maxRows := videoRow + 1\<rparr> else store);
                 store2 = (if audio \<and> audioRow \<ge> maxRows store1
                           then store1\<lparr>maxRows := audioRow + 1\<rparr> else store1);
                 alignedStartTime = lastVideoEndTime env;
                 store3 = store2\<lparr>storeCalls := storeCalls store2 @
                            [HandleVideoUploadFromUrl
                               \<lparr>vidUrl = uploadedUrl, vidTitle = fileName file,
                                vidKey = (case resultKey uploadResult of
                                            None \<Rightarrow> None
                                          | Some k \<Rightarrow> if k = [] then None else Some k),
                                vidDuration = durMs, vidRow = videoRow,
                                vidStartTime = alignedStartTime,
                                vidIsNeedLoader = False,
                                vidHasSeparateAudio = audio\<rparr>]\<rparr>
             in if handleVideoUploadFromUrlThrows env
                then Some (store3, [FailedToUpload (fileName file)])
                else if audio then
                  (let store4 = store3\<lparr>storeCalls := storeCalls store3 @
                                  [AddExistingAudio
                                     \<lparr>audBase64Audio = uploadedUrl, audDurationMs = durMs,
                                      audRow = audioRow, audStartTime = alignedStartTime,
                                      audAudioType = ''music'', audDuration = durMs,
                                      audId = freshId env, audName = fileName file\<rparr>]\<rparr>
                   in if addExistingAudioThrows env
                      then Some (store4, [AudioExtractionFailed (fileName file),
                                          AddedVideoAndAudio (fileName file)])
                      else Some (store4, [AddedVideoAndAudio (fileName file)]))
                else Some (store3, [AddedVideo (fileName file)]))"

text \<open>
  Lines 155-184 and 304-307: one accepted file. \<^verbatim>\<open>logicalType\<close> is the lower-cased
  category (empty when no category was found); \<open>uploadOutcome\<close> is \<open>None\<close> when
  \<^verbatim>\<open>uploadFile\<close> throws.
\<close>

definition dropFile ::
  "DropEnvironment \<Rightarrow> DroppedFile \<Rightarrow> string \<Rightarrow> UploadResult option \<Rightarrow> TimelineStore \<Rightarrow>
   (TimelineStore \<times> Toast list) option" where
  "dropFile env file logicalType uploadOutcome store =
     (if logicalType = [] then Some (store, [UnsupportedFileType (fileName file)])
      else
        let uploadType =
              (if logicalType = ''image'' \<or> logicalType = ''animation'' then Some ''image''
               else if logicalType = ''video'' then Some ''video''
               else if logicalType = ''audio'' then Some ''audio''
               else None)
        in case uploadType of
             None \<Rightarrow> Some (store, [UnsupportedFileType (fileName file)])
           | Some ut \<Rightarrow>
               (case uploadOutcome of
                  None \<Rightarrow> Some (store, [FailedToUpload (fileName file)])
                | Some uploadResult \<Rightarrow>
                    if ut = ''image'' then dropImage env file uploadResult store
                    else if ut = ''audio'' then dropAudio env file uploadResult store
                    else if ut = ''video'' then dropVideo env file uploadResult store
                    else Some (store, [])))"

section \<open>Properties of the compatibility rules\<close>

text \<open>
  C2, as stated: \<^verbatim>\<open>compatible(animation, X)\<close> is true for every kind \<^verbatim>\<open>X\<close>, text included.
  The text test is the first line of \<^verbatim>\<open>areTypesCompatible\<close>, so it decides the pair
  (animation, text) before the animation test is reached: the result there is false.
\<close>

theorem animation_text_incompatible:
  "\<not> areTypesCompatible ''animation'' ''text''"
  by (simp add: areTypesCompatible_def)

text \<open>
  C2, amended: \<^verbatim>\<open>compatible(animation, X)\<close> is true for every kind \<^verbatim>\<open>X\<close> other than
  text (video, audio, image, imageUrl, animation, and in fact any other string), and false
  for text.
\<close>

theorem animation_compatible_iff:
  "areTypesCompatible ''animation'' X = (X \<noteq> ''text'')"
  by (simp add: areTypesCompatible_def)

text \<open>
  C5: over the kinds video, audio, image, imageUrl and text,
  a pair (A, B) without text and not both of the image family is incompatible (this covers
  A \<noteq> B as well as video with video and audio with audio); image with image is compatible;
  text with text is compatible; text with anything other than text is incompatible.
\<close>

theorem exclusive_kinds:
  "(A \<in> set (videoTypes @ audioTypes @ imageTypes) \<and>
    B \<in> set (videoTypes @ audioTypes @ imageTypes) \<and>
    \<not> (A \<in> set imageTypes \<and> B \<in> set imageTypes)
      \<longrightarrow> \<not> areTypesCompatible A B) \<and>
   areTypesCompatible ''image'' ''image'' \<and>
   areTypesCompatible ''text'' ''text'' \<and>
   (X \<noteq> ''text'' \<longrightarrow> \<not> areTypesCompatible ''text'' X)"
proof (intro conjI impI)
  assume h: "A \<in> set (videoTypes @ audioTypes @ imageTypes) \<and>
    B \<in> set (videoTypes @ audioTypes @ imageTypes) \<and>
    \<not> (A \<in> set imageTypes \<and> B \<in> set imageTypes)"
  from h have A: "A = ''video'' \<or> A = ''audio'' \<or> A = ''imageUrl'' \<or> A = ''image''"
    by (simp add: videoTypes_def audioTypes_def imageTypes_def)
  from h have B: "B = ''video'' \<or> B = ''audio'' \<or> B = ''imageUrl'' \<or> B = ''image''"
    by (simp add: videoTypes_def audioTypes_def imageTypes_def)
  from h have n: "\<not> (A \<in> set imageTypes \<and> B \<in> set imageTypes)"
    by simp
  from A B n show "\<not> areTypesCompatible A B"
    by (elim disjE;
        simp add: areTypesCompatible_def videoTypes_def audioTypes_def imageTypes_def)
next
  show "areTypesCompatible ''image'' ''image''"
    by (simp add: areTypesCompatible_def videoTypes_def audioTypes_def imageTypes_def)
next
  show "areTypesCompatible ''text'' ''text''"
    by (simp add: areTypesCompatible_def)
next
  assume "X \<noteq> ''text''"
  then show "\<not> areTypesCompatible ''text'' X"
    by (simp add: areTypesCompatible_def)
qed

theorem exclusive_kinds_witness:
  "\<not> areTypesCompatible ''video'' ''audio'' \<and>
   \<not> areTypesCompatible ''text'' ''video''"
  using exclusive_kinds [of "''video''" "''audio''" "''video''"]
  by (simp add: videoTypes_def audioTypes_def imageTypes_def)

section \<open>Properties of the ruler marker generator\<close>

text \<open>
  C1, as stated: for \<^verbatim>\<open>maxTimeMs = 60000\<close>, \<^verbatim>\<open>fps = 30\<close>, \<^verbatim>\<open>scale = 1\<close> the
  markers are at 0 s, 30 s and 60 s. The 30-second interval is chosen only for
  \<^verbatim>\<open>scale > 1\<close>; at \<^verbatim>\<open>scale = 1\<close> the last branch applies and the interval is 60
  seconds, so the marker times are not 0, 30, 60.
\<close>

theorem ruler_scale_one_not_thirty:
  "map_option (map time) (rulerMarkers 60000 30 1) \<noteq> Some [0, 30, 60]"
  by code_simp

text \<open>
  C1, amended: for \<^verbatim>\<open>maxTimeMs = 60000\<close>, \<^verbatim>\<open>fps = 30\<close>, \<^verbatim>\<open>scale = 1\<close> the generator
  returns exactly two markers, at 0 s and 60 s, with horizontal positions 0 and 100 percent.
\<close>

theorem ruler_scale_one:
  "rulerMarkers 60000 30 1 =
     Some [\<lparr>time = 0, timeMs = 0, position = 0, frame = None,
             isMajor = True, isMinor = False, isFrame = False\<rparr>,
           \<lparr>time = 60, timeMs = 60000, position = 100, frame = None,
             isMajor = False, isMinor = True, isFrame = False\<rparr>]"
  by code_simp

section \<open>Properties of the pointer handlers\<close>

text \<open>
  C9: when the pointer is outside the rectangle of the timeline grid, both document-level
  handlers (\<^verbatim>\<open>mousemove\<close> and \<^verbatim>\<open>dragover\<close>) do the same. If \<^verbatim>\<open>isFileDragging\<close> or
  \<^verbatim>\<open>isGalleryDragging\<close> is set, the ghost state is fully reset: every flag false, every
  ghost payload null, every list empty. Otherwise \<^verbatim>\<open>ghostElement\<close> becomes null exactly
  when \<^verbatim>\<open>isDragging\<close> is set and \<^verbatim>\<open>multiGhostElements\<close> becomes empty exactly when
  \<^verbatim>\<open>isMultiDragging\<close> is set, and every other field, the mode flags included, keeps its
  value. The drag-over handler then returns without updating the file ghost.
\<close>

theorem leave_bounds:
  assumes "\<not> isOverGrid gridRect (dragClientX e) (dragClientY e)"
  shows "handleGlobalMouseMove (Some gridRect) (dragClientX e) (dragClientY e) g =
           (if isFileDragging g \<or> isGalleryDragging g then
              \<lparr>isDragging = False, ghostElement = None, isIncompatibleRow = False,
               isResizing = False, resizeGhostElement = None,
               isMultiDragging = False, multiGhostElements = [],
               isGalleryDragging = False, galleryGhostElement = None,
               isFileDragging = False, fileGhostElement = None,
               alignmentLines = []\<rparr>
            else
              g\<lparr>ghostElement := (if isDragging g then None else ghostElement g),
                multiGhostElements :=
                  (if isMultiDragging g then [] else multiGhostElements g)\<rparr>) \<and>
         handleGlobalDragOver (Some gridRect) rowContainers overlays storeMaxTime e g =
           (handleGlobalMouseMove (Some gridRect) (dragClientX e) (dragClientY e) g, None)"
  using assms
  by (simp add: handleGlobalMouseMove_def handleGlobalDragOver_def resetGhostState_def
        Let_def)

theorem leave_bounds_witness:
  "handleGlobalMouseMove
     (Some \<lparr>rectLeft = 0, rectRight = 800, rectTop = 100, rectBottom = 400,
            rectWidth = 800\<rparr>) 900 50
     \<lparr>isDragging = True,
      ghostElement = Some \<lparr>ghostLeft = 10, ghostWidth = 5, ghostRow = 1,
                            ghostElementType = ''video''\<rparr>,
      isIncompatibleRow = False, isResizing = False, resizeGhostElement = None,
      isMultiDragging = False, multiGhostElements = [],
      isGalleryDragging = False, galleryGhostElement = None,
      isFileDragging = False, fileGhostElement = None, alignmentLines = []\<rparr> =
   \<lparr>isDragging = True, ghostElement = None,
    isIncompatibleRow = False, isResizing = False, resizeGhostElement = None,
    isMultiDragging = False, multiGhostElements = [],
    isGalleryDragging = False, galleryGhostElement = None,
    isFileDragging = False, fileGhostElement = None, alignmentLines = []\<rparr> \<and>
   handleGlobalDragOver
     (Some \<lparr>rectLeft = 0, rectRight = 800, rectTop = 100, rectBottom = 400,
            rectWidth = 800\<rparr>) [] [] 60000
     \<lparr>dragClientX = 400, dragClientY = 450, typesIncludeFiles = True,
      targetInTimelineRow = False, itemType = Some ''video/mp4''\<rparr>
     \<lparr>isDragging = True,
      ghostElement = Some \<lparr>ghostLeft = 10, ghostWidth = 5, ghostRow = 1,
                            ghostElementType = ''video''\<rparr>,
      isIncompatibleRow = True, isResizing = False, resizeGhostElement = None,
      isMultiDragging = False, multiGhostElements = [],
      isGalleryDragging = False, galleryGhostElement = None,
      isFileDragging = True,
      fileGhostElement = Some \<lparr>ghostLeft = 50, ghostWidth = 10, ghostRow = 0,
                                ghostElementType = ''video'', isIncompatible = True\<rparr>,
      alignmentLines = [\<lparr>linePosition = 50, lineType = None, snapGuide = True\<rparr>]\<rparr> =
   (\<lparr>isDragging = False, ghostElement = None,
     isIncompatibleRow = False, isResizing = False, resizeGhostElement = None,
     isMultiDragging = False, multiGhostElements = [],
     isGalleryDragging = False, galleryGhostElement = None,
     isFileDragging = False, fileGhostElement = None, alignmentLines = []\<rparr>, None)"
  using leave_bounds [where
      gridRect = "\<lparr>rectLeft = 0, rectRight = 800, rectTop = 100, rectBottom = 400,
        rectWidth = 800\<rparr>" and
      e = "\<lparr>dragClientX = 400, dragClientY = 450, typesIncludeFiles = True,
        targetInTimelineRow = False, itemType = Some ''video/mp4''\<rparr>" and
      rowContainers = "[]" and overlays = "[]" and storeMaxTime = 60000 and
      g = "\<lparr>isDragging = True,
        ghostElement = Some \<lparr>ghostLeft = 10, ghostWidth = 5, ghostRow = 1,
                              ghostElementType = ''video''\<rparr>,
        isIncompatibleRow = True, isResizing = False, resizeGhostElement = None,
        isMultiDragging = False, multiGhostElements = [],
        isGalleryDragging = False, galleryGhostElement = None,
        isFileDragging = True,
        fileGhostElement = Some \<lparr>ghostLeft = 50, ghostWidth = 10, ghostRow = 0,
                                  ghostElementType = ''video'', isIncompatible = True\<rparr>,
        alignmentLines = [\<lparr>linePosition = 50, lineType = None, snapGuide = True\<rparr>]\<rparr>"]
    leave_bounds [of
      "\<lparr>rectLeft = 0, rectRight = 800, rectTop = 100, rectBottom = 400, rectWidth = 800\<rparr>"
      "\<lparr>dragClientX = 900, dragClientY = 50, typesIncludeFiles = False,
        targetInTimelineRow = False, itemType = None\<rparr>"
      "\<lparr>isDragging = True,
        ghostElement = Some \<lparr>ghostLeft = 10, ghostWidth = 5, ghostRow = 1,
                              ghostElementType = ''video''\<rparr>,
        isIncompatibleRow = False, isResizing = False, resizeGhostElement = None,
        isMultiDragging = False, multiGhostElements = [],
        isGalleryDragging = False, galleryGhostElement = None,
        isFileDragging = False, fileGhostElement = None, alignmentLines = []\<rparr>"]
  by (simp add: isOverGrid_def)

text \<open>
  C10: during a file drag over the timeline, a dragged item whose MIME type starts with
  neither \<^verbatim>\<open>audio/\<close> nor \<^verbatim>\<open>video/\<close> (a text file, an unknown type, an empty or missing
  type) is given the kind \<^verbatim>\<open>imageUrl\<close>, and the handler's whole outcome, the
  incompatibility flag included, is the one an image file (\<^verbatim>\<open>image/png\<close>) produces at
  the same pointer position.
\<close>

theorem drag_kind_defaults_to_image:
  assumes "\<forall>ft. fileType = Some ft \<longrightarrow>
             \<not> startsWith ft ''audio/'' \<and> \<not> startsWith ft ''video/''"
  shows "inferTargetElementType fileType = ''imageUrl'' \<and>
         truthy (rowIncompatible overlays row (inferTargetElementType fileType)) =
         truthy (rowIncompatible overlays row (inferTargetElementType (Some ''image/png''))) \<and>
         handleGlobalDragOver timelineGrid rowContainers overlays storeMaxTime
           (e\<lparr>itemType := fileType\<rparr>) g =
         handleGlobalDragOver timelineGrid rowContainers overlays storeMaxTime
           (e\<lparr>itemType := Some ''image/png''\<rparr>) g"
proof -
  have img: "inferTargetElementType (Some ''image/png'') = ''imageUrl''"
    by (simp add: inferTargetElementType_def startsWith_def)
  have ft: "inferTargetElementType fileType = ''imageUrl''"
    using assms by (cases fileType) (simp_all add: inferTargetElementType_def)
  show ?thesis
    by (simp add: handleGlobalDragOver_def img ft Let_def split: option.split)
qed

theorem drag_kind_defaults_to_image_witness:
  "inferTargetElementType (Some ''text/plain'') = ''imageUrl'' \<and>
   snd (handleGlobalDragOver
     (Some \<lparr>rectLeft = 0, rectRight = 800, rectTop = 100, rectBottom = 400,
            rectWidth = 800\<rparr>)
     [(\<lparr>rectLeft = 0, rectRight = 800, rectTop = 100, rectBottom = 150,
        rectWidth = 800\<rparr>, 0),
      (\<lparr>rectLeft = 0, rectRight = 800, rectTop = 150, rectBottom = 200,
        rectWidth = 800\<rparr>, 1)]
     [\<lparr>overlayRow = 1, overlayType = ''video''\<rparr>] 60000
     \<lparr>dragClientX = 400, dragClientY = 170, typesIncludeFiles = True,
      targetInTimelineRow = False, itemType = Some ''text/plain''\<rparr>
     \<lparr>isDragging = False, ghostElement = None,
      isIncompatibleRow = False, isResizing = False, resizeGhostElement = None,
      isMultiDragging = False, multiGhostElements = [],
      isGalleryDragging = False, galleryGhostElement = None,
      isFileDragging = True, fileGhostElement = None, alignmentLines = []\<rparr>) =
   Some \<lparr>newPosition = Some 30000, targetRow = 1, fileIsIncompatible = JsBoolean True\<rparr>"
  using drag_kind_defaults_to_image [where
      fileType = "Some ''text/plain''" and
      timelineGrid = "Some \<lparr>rectLeft = 0, rectRight = 800, rectTop = 100,
        rectBottom = 400, rectWidth = 800\<rparr>" and
      rowContainers = "[(\<lparr>rectLeft = 0, rectRight = 800, rectTop = 100,
          rectBottom = 150, rectWidth = 800\<rparr>, 0),
        (\<lparr>rectLeft = 0, rectRight = 800, rectTop = 150, rectBottom = 200,
          rectWidth = 800\<rparr>, 1)]" and
      overlays = "[\<lparr>overlayRow = 1, overlayType = ''video''\<rparr>]" and
      row = 1 and storeMaxTime = 60000 and
      e = "\<lparr>dragClientX = 400, dragClientY = 170, typesIncludeFiles = True,
        targetInTimelineRow = False, itemType = None\<rparr>" and
      g = "\<lparr>isDragging = False, ghostElement = None,
        isIncompatibleRow = False, isResizing = False, resizeGhostElement = None,
        isMultiDragging = False, multiGhostElements = [],
        isGalleryDragging = False, galleryGhostElement = None,
        isFileDragging = True, fileGhostElement = None, alignmentLines = []\<rparr>"]
  by (simp add: startsWith_def handleGlobalDragOver_def isOverGrid_def
        inferTargetElementType_def rowIncompatible_def areTypesCompatible_def
        videoTypes_def audioTypes_def imageTypes_def)

section \<open>Properties of the media metadata probe\<close>

lemma resolved_step:
  "resolved s \<Longrightarrow> promise (probeStep url s e) = promise s \<and> resolved (probeStep url s e)"
  by (cases e)
     (simp_all add: onLoaded_def onCanPlayThrough_def onError_def onTimeout_def
        onAudioRecheck_def onDurationRecheck_def detectAudioAndResolve_def)

lemma inv_step: "probeInv s \<Longrightarrow> probeInv (probeStep url s e)"
proof (cases "resolved s")
  case True
  assume "probeInv s"
  with True resolved_step [OF True, of url e] show ?thesis
    by (auto simp add: probeInv_def split: Promise.splits)
next
  case False
  assume inv: "probeInv s"
  with False have p: "promise s = Pending" "timeoutArmed s" "errorListener s"
    by (auto simp add: probeInv_def split: Promise.splits)
  show ?thesis
    using False p
    by (cases e)
       (auto simp add: probeInv_def onLoaded_def onCanPlayThrough_def onError_def
          onTimeout_def onDurationRecheck_def onAudioRecheck_def
          detectAudioAndResolve_def cleanup_def clearTimeout_def Let_def
          split: option.splits)
qed

lemma inv_run: "probeInv s \<Longrightarrow> probeInv (foldl (probeStep url) s events)"
  by (induction events arbitrary: s) (simp_all add: inv_step)

lemma resolved_run:
  "resolved s \<Longrightarrow> promise (foldl (probeStep url) s events) = promise s"
  by (induction events arbitrary: s) (simp_all add: resolved_step)

lemma idle_step:
  "\<not> timeoutArmed s \<Longrightarrow> \<not> loadedListener s \<Longrightarrow> \<not> canPlayThroughListener s \<Longrightarrow>
   \<not> errorListener s \<Longrightarrow> durationRechecks s = 0 \<Longrightarrow> audioRechecks s = 0 \<Longrightarrow>
   probeStep url s e = s"
  by (cases e) simp_all

lemma idle_run:
  "\<not> timeoutArmed s \<Longrightarrow> \<not> loadedListener s \<Longrightarrow> \<not> canPlayThroughListener s \<Longrightarrow>
   \<not> errorListener s \<Longrightarrow> durationRechecks s = 0 \<Longrightarrow> audioRechecks s = 0 \<Longrightarrow>
   foldl (probeStep url) s events = s"
  by (induction events) (simp_all add: idle_step)

lemma inv_start:
  "url \<noteq> None \<Longrightarrow> url \<noteq> Some [] \<Longrightarrow> probeInv (probeStart url srcThrows)"
  by (simp add: probeStart_def probeInv_def cleanup_def clearTimeout_def Let_def)

lemma pending_error:
  "probeInv s \<Longrightarrow> promise s = Pending \<Longrightarrow>
   promise (probeStep url s ErrorEvent) = Resolved defaultMetadata \<and>
   promise (probeStep url s TimeoutFired) = Resolved defaultMetadata"
  by (simp add: probeInv_def onError_def onTimeout_def cleanup_def clearTimeout_def
        Let_def defaultMetadata_def)

lemma throws_default:
  "srcThrows \<Longrightarrow> getVideoMetadataFromUrl url srcThrows events = Resolved defaultMetadata"
proof (cases "url = None \<or> url = Some []")
  case True
  then have "foldl (probeStep u) (probeStart url srcThrows) events = probeStart url srcThrows"
    for u
    by (intro idle_run) (auto simp add: probeStart_def)
  with True show ?thesis
    by (auto simp add: getVideoMetadataFromUrl_def probeStart_def defaultMetadata_def)
next
  case False
  assume t: srcThrows
  from False t have r: "resolved (probeStart url srcThrows)"
    and p: "promise (probeStart url srcThrows) = Resolved defaultMetadata"
    by (auto simp add: probeStart_def cleanup_def clearTimeout_def Let_def defaultMetadata_def)
  show ?thesis
    by (simp add: getVideoMetadataFromUrl_def resolved_run [OF r] p)
qed

lemma falsy_default:
  "url = None \<or> url = Some [] \<Longrightarrow>
   getVideoMetadataFromUrl url srcThrows events = Resolved defaultMetadata"
proof -
  assume f: "url = None \<or> url = Some []"
  then have "foldl (probeStep u) (probeStart url srcThrows) events = probeStart url srcThrows"
    for u
    by (intro idle_run) (auto simp add: probeStart_def)
  with f show ?thesis
    by (auto simp add: getVideoMetadataFromUrl_def probeStart_def defaultMetadata_def)
qed

lemma run_inv:
  "url \<noteq> None \<Longrightarrow> url \<noteq> Some [] \<Longrightarrow>
   probeInv (foldl (probeStep u) (probeStart url srcThrows) events)"
  by (rule inv_run) (rule inv_start)

lemma settled_stays:
  "probeInv s \<Longrightarrow> promise s = Resolved v \<Longrightarrow>
   promise (foldl (probeStep u) s events) = Resolved v"
proof -
  assume "probeInv s" and p: "promise s = Resolved v"
  then have "resolved s" by (simp add: probeInv_def)
  then show ?thesis using p by (simp add: resolved_run)
qed

text \<open>
  C6: for every URL and every sequence of browser events, the promise returned by
  \<^verbatim>\<open>getVideoMetadataFromUrl\<close> is never rejected. With an unset (or empty) URL, or when
  setting the source throws, it is resolved with \<^verbatim>\<open>{durationMs: 10000, hasAudio: false}\<close>
  whatever happens later. While it is pending, a media error event and the expiry of the
  timer each resolve it with that same value. A resolved promise keeps its value, and after
  the timer has fired the promise is resolved. (The length of the timer only decides when
  \<open>TimeoutFired\<close> arrives, so the statement holds for every \<^verbatim>\<open>timeoutMs\<close>.)
\<close>

theorem probe_never_rejects:
  "getVideoMetadataFromUrl url srcThrows events \<noteq> Rejected msg \<and>
   (url = None \<or> url = Some [] \<or> srcThrows \<longrightarrow>
      getVideoMetadataFromUrl url srcThrows events =
        Resolved \<lparr>durationMs = 10000, hasAudio = False\<rparr>) \<and>
   (getVideoMetadataFromUrl url srcThrows events = Pending \<longrightarrow>
      getVideoMetadataFromUrl url srcThrows (events @ [ErrorEvent]) =
        Resolved \<lparr>durationMs = 10000, hasAudio = False\<rparr> \<and>
      getVideoMetadataFromUrl url srcThrows (events @ [TimeoutFired]) =
        Resolved \<lparr>durationMs = 10000, hasAudio = False\<rparr>) \<and>
   (getVideoMetadataFromUrl url srcThrows events = Resolved v \<longrightarrow>
      getVideoMetadataFromUrl url srcThrows (events @ later) = Resolved v) \<and>
   (TimeoutFired \<in> set events \<longrightarrow>
      (\<exists>m. getVideoMetadataFromUrl url srcThrows events = Resolved m))"
proof (cases "url = None \<or> url = Some [] \<or> srcThrows")
  case True
  then have "getVideoMetadataFromUrl url srcThrows evs = Resolved defaultMetadata" for evs
    using falsy_default [of url srcThrows evs] throws_default [of srcThrows url evs] by blast
  then show ?thesis by (simp add: defaultMetadata_def)
next
  case False
  then have u: "url \<noteq> None" "url \<noteq> Some []" "\<not> srcThrows" by simp_all
  define step where "step = probeStep (case url of None \<Rightarrow> [] | Some u \<Rightarrow> u)"
  define run where "run evs = foldl step (probeStart url srcThrows) evs" for evs
  have g: "getVideoMetadataFromUrl url srcThrows evs = promise (run evs)" for evs
    by (simp add: getVideoMetadataFromUrl_def run_def step_def)
  have inv: "probeInv (run evs)" for evs
    unfolding run_def step_def using u by (simp add: run_inv)
  have app: "run (xs @ ys) = foldl step (run xs) ys" for xs ys
    by (simp add: run_def)
  have stay: "promise (run xs) = Resolved w \<Longrightarrow> promise (run (xs @ ys)) = Resolved w"
    for xs ys w
    unfolding app step_def using inv [of xs] by (rule settled_stays)
  have c1: "promise (run events) \<noteq> Rejected msg"
    using inv [of events] by (auto simp add: probeInv_def)
  have c3: "promise (run events) = Pending \<Longrightarrow>
      promise (run (events @ [ErrorEvent])) = Resolved \<lparr>durationMs = 10000, hasAudio = False\<rparr> \<and>
      promise (run (events @ [TimeoutFired])) = Resolved \<lparr>durationMs = 10000, hasAudio = False\<rparr>"
    using pending_error [OF inv [of events]]
    by (simp add: app step_def defaultMetadata_def)
  have c5: "\<exists>m. promise (run events) = Resolved m" if t: "TimeoutFired \<in> set events"
  proof -
    from t obtain xs ys where e: "events = xs @ TimeoutFired # ys"
      by (auto simp add: in_set_conv_decomp)
    have "\<exists>m. promise (run (xs @ [TimeoutFired])) = Resolved m"
    proof (cases "promise (run xs)")
      case Pending
      then show ?thesis
        using pending_error [OF inv [of xs]] by (simp add: app step_def)
    next
      case (Resolved w)
      then show ?thesis using stay [of xs w "[TimeoutFired]"] by simp
    next
      case (Rejected m)
      then show ?thesis using inv [of xs] by (simp add: probeInv_def)
    qed
    then obtain m where "promise (run (xs @ [TimeoutFired])) = Resolved m" ..
    then have "promise (run ((xs @ [TimeoutFired]) @ ys)) = Resolved m" by (rule stay)
    then show ?thesis by (auto simp add: e)
  qed
  show ?thesis
    unfolding g using False c1 c3 c5 stay [of events v later] by blast
qed

theorem probe_never_rejects_witness:
  "getVideoMetadataFromUrl (Some ''blob:clip'') False [] = Pending \<and>
   getVideoMetadataFromUrl (Some ''blob:clip'') False [ErrorEvent] =
     Resolved \<lparr>durationMs = 10000, hasAudio = False\<rparr> \<and>
   getVideoMetadataFromUrl (Some ''blob:clip'') False [TimeoutFired] =
     Resolved \<lparr>durationMs = 10000, hasAudio = False\<rparr> \<and>
   getVideoMetadataFromUrl None False [TimeoutFired] =
     Resolved \<lparr>durationMs = 10000, hasAudio = False\<rparr>"
  using probe_never_rejects [of "Some ''blob:clip''" False "[]" "[]" defaultMetadata "[]"]
    probe_never_rejects [of None False "[TimeoutFired]" "[]" defaultMetadata "[]"]
  by (simp add: getVideoMetadataFromUrl_def probeStart_def)

text \<open>
  C7: when the duration is valid and positive and none of the audio signals is positive
  (\<^verbatim>\<open>mozHasAudio\<close> falsy, \<^verbatim>\<open>webkitAudioDecodedByteCount\<close> not a positive number,
  \<^verbatim>\<open>audioTracks\<close> missing or empty), \<^verbatim>\<open>detectAudioAndResolve\<close> resolves a pending
  promise with \<^verbatim>\<open>hasAudio = true\<close> and the duration in milliseconds, and so does the probe
  when this is what the \<^verbatim>\<open>loadedmetadata\<close> event finds; the error and timeout paths
  of the same probe resolve with \<^verbatim>\<open>hasAudio = false\<close>.
\<close>

theorem unconfirmed_audio_assumed_present:
  assumes "videoDuration video = Some d" and "d > 0"
    and "\<not> mozHasAudio video"
    and "\<forall>n. webkitAudioDecodedByteCount video = Some n \<longrightarrow> \<not> n > 0"
    and "\<forall>n. audioTracksLength video = Some n \<longrightarrow> \<not> n > 0"
    and "\<not> resolved s" and "promise s = Pending"
  shows "promise (detectAudioAndResolve video s) =
           Resolved \<lparr>durationMs = d * 1000, hasAudio = True\<rparr> \<and>
         getVideoMetadataFromUrl (Some (c # u)) False [LoadedMetadata video] =
           Resolved \<lparr>durationMs = d * 1000, hasAudio = True\<rparr> \<and>
         getVideoMetadataFromUrl (Some (c # u)) False [ErrorEvent] =
           Resolved \<lparr>durationMs = 10000, hasAudio = False\<rparr> \<and>
         getVideoMetadataFromUrl (Some (c # u)) False [TimeoutFired] =
           Resolved \<lparr>durationMs = 10000, hasAudio = False\<rparr>"
proof -
  have det: "promise (detectAudioAndResolve video t) =
               Resolved \<lparr>durationMs = d * 1000, hasAudio = True\<rparr>"
    if "\<not> resolved t" and "promise t = Pending" for t
    using that assms(1-5)
    by (auto simp add: detectAudioAndResolve_def cleanup_def clearTimeout_def Let_def
          split: option.splits)
  have first: "getVideoMetadataFromUrl (Some (c # u)) False [LoadedMetadata video] =
                 Resolved \<lparr>durationMs = d * 1000, hasAudio = True\<rparr>"
    using assms(1,2)
    by (simp add: getVideoMetadataFromUrl_def probeStart_def onLoaded_def Let_def det)
  have fail: "getVideoMetadataFromUrl (Some (c # u)) False [ErrorEvent] =
                Resolved \<lparr>durationMs = 10000, hasAudio = False\<rparr> \<and>
              getVideoMetadataFromUrl (Some (c # u)) False [TimeoutFired] =
                Resolved \<lparr>durationMs = 10000, hasAudio = False\<rparr>"
    by (simp add: getVideoMetadataFromUrl_def probeStart_def onError_def onTimeout_def
          cleanup_def clearTimeout_def)
  from det [OF assms(6,7)] first fail show ?thesis by simp
qed

theorem unconfirmed_audio_assumed_present_witness:
  "getVideoMetadataFromUrl (Some ''blob:clip'') False
     [LoadedMetadata \<lparr>videoDuration = Some 8, mozHasAudio = False,
        webkitAudioDecodedByteCount = Some 0, audioTracksLength = None,
        readyState = 1\<rparr>] =
   Resolved \<lparr>durationMs = 8000, hasAudio = True\<rparr>"
  using unconfirmed_audio_assumed_present [of
      "\<lparr>videoDuration = Some 8, mozHasAudio = False,
        webkitAudioDecodedByteCount = Some 0, audioTracksLength = None, readyState = 1\<rparr>"
      8
      "\<lparr>resolved = False, promise = Pending, timeoutArmed = True,
        loadedListener = True, canPlayThroughListener = True,
        errorListener = True, durationRechecks = 0, audioRechecks = 0\<rparr>"
      "CHR ''b''" "''lob:clip''"]
  by simp

section \<open>Properties of the drop pipeline\<close>

text \<open>
  What \<^verbatim>\<open>handleDrop\<close> does with a video whose probe resolves with an audio track: the
  rows, the track count and the two store calls, written out.
\<close>

lemma dropVideo_resolved:
  assumes "getVideoMetadataFromUrl (Some (uploadedUrlOf uploadResult file))
             (probeSrcThrows env) (probeEvents env) = Resolved meta"
    and "hasAudio meta"
  shows "dropVideo env file uploadResult store =
     (let videoRow = dedicatedVideoTrackRow env;
          audioRow = (if dedicatedAudioTrackRow env = videoRow
                      then max (videoRow + 1) (maxRows store)
                      else dedicatedAudioTrackRow env);
          rows1 = (if videoRow \<ge> maxRows store then videoRow + 1 else maxRows store);
          rows2 = (if audioRow \<ge> rows1 then audioRow + 1 else rows1);
          v = \<lparr>vidUrl = uploadedUrlOf uploadResult file, vidTitle = fileName file,
               vidKey = (case resultKey uploadResult of
                           None \<Rightarrow> None | Some k \<Rightarrow> if k = [] then None else Some k),
               vidDuration = durationMs meta, vidRow = videoRow,
               vidStartTime = lastVideoEndTime env, vidIsNeedLoader = False,
               vidHasSeparateAudio = True\<rparr>;
          a = \<lparr>audBase64Audio = uploadedUrlOf uploadResult file,
               audDurationMs = durationMs meta, audRow = audioRow,
               audStartTime = lastVideoEndTime env, audAudioType = ''music'',
               audDuration = durationMs meta, audId = freshId env,
               audName = fileName file\<rparr>
      in if handleVideoUploadFromUrlThrows env then
           Some (\<lparr>maxRows = rows2,
                   storeCalls = storeCalls store @ [HandleVideoUploadFromUrl v]\<rparr>,
                 [FailedToUpload (fileName file)])
         else
           Some (\<lparr>maxRows = rows2,
                   storeCalls = storeCalls store @
                     [HandleVideoUploadFromUrl v, AddExistingAudio a]\<rparr>,
                 if addExistingAudioThrows env
                 then [AudioExtractionFailed (fileName file),
                       AddedVideoAndAudio (fileName file)]
                 else [AddedVideoAndAudio (fileName file)]))"
  using assms
  by (cases store) (simp add: dropVideo_def Let_def)

text \<open>
  C3: when the probe of a dropped video reports an audio track and the dedicated audio
  row equals the dedicated video row, the video is placed on the dedicated video row and
  the companion audio on row \<^verbatim>\<open>max(videoRow + 1, maxRows)\<close>, \<^verbatim>\<open>maxRows\<close> being the track
  count before the drop; the two rows differ, and afterwards the track count is at least
  the larger of the two rows plus one. (When \<^verbatim>\<open>handleVideoUploadFromUrl\<close> throws, the
  audio call is not reached; the track count has been extended all the same.)
\<close>

theorem companion_audio_row:
  assumes "getVideoMetadataFromUrl (Some (uploadedUrlOf uploadResult file))
             (probeSrcThrows env) (probeEvents env) = Resolved meta"
    and "hasAudio meta"
    and "dedicatedAudioTrackRow env = dedicatedVideoTrackRow env"
  shows "\<exists>store' toasts v.
           dropVideo env file uploadResult store = Some (store', toasts) \<and>
           vidRow v = dedicatedVideoTrackRow env \<and>
           maxRows store' \<ge> max (vidRow v) (max (vidRow v + 1) (maxRows store)) + 1 \<and>
           (if handleVideoUploadFromUrlThrows env then
              storeCalls store' = storeCalls store @ [HandleVideoUploadFromUrl v]
            else
              (\<exists>a. storeCalls store' =
                      storeCalls store @ [HandleVideoUploadFromUrl v, AddExistingAudio a] \<and>
                   audRow a = max (vidRow v + 1) (maxRows store) \<and>
                   audRow a \<noteq> vidRow v))"
proof -
  have "max (dedicatedVideoTrackRow env + 1) (maxRows store) \<noteq> dedicatedVideoTrackRow env"
    by linarith
  with assms(3) show ?thesis
    by (simp add: dropVideo_resolved [OF assms(1,2)] Let_def)
qed

theorem companion_audio_row_witness:
  "getVideoMetadataFromUrl (Some ''blob:clip'') False
     [LoadedMetadata \<lparr>videoDuration = Some 8, mozHasAudio = False,
        webkitAudioDecodedByteCount = None, audioTracksLength = Some 1,
        readyState = 1\<rparr>] =
     Resolved \<lparr>durationMs = 8000, hasAudio = True\<rparr> \<and>
   dropVideo
        \<lparr>dedicatedImageTrackRow = 0, dedicatedAudioTrackRow = 0,
         dedicatedVideoTrackRow = 0, lastImageEndTime = of_int,
         lastAudioEndTime = 0, lastVideoEndTime = 0,
         addImageLocalThrows = False, addExistingAudioThrows = False,
         handleVideoUploadFromUrlThrows = False, freshId = ''id1'',
         audioEvents = [], probeSrcThrows = False,
         probeEvents =
           [LoadedMetadata \<lparr>videoDuration = Some 8, mozHasAudio = False,
              webkitAudioDecodedByteCount = None, audioTracksLength = Some 1,
              readyState = 1\<rparr>]\<rparr>
        \<lparr>fileName = ''clip.mp4'', objectUrl = ''blob:clip''\<rparr>
        \<lparr>resultUrl = None, resultFileUrl = None, resultThumbnail = None,
         resultDuration = None, resultKey = None\<rparr>
        \<lparr>maxRows = 1, storeCalls = []\<rparr> =
   Some (\<lparr>maxRows = 2,
           storeCalls =
             [HandleVideoUploadFromUrl
                \<lparr>vidUrl = ''blob:clip'', vidTitle = ''clip.mp4'', vidKey = None,
                 vidDuration = 8000, vidRow = 0, vidStartTime = 0,
                 vidIsNeedLoader = False, vidHasSeparateAudio = True\<rparr>,
              AddExistingAudio
                \<lparr>audBase64Audio = ''blob:clip'', audDurationMs = 8000, audRow = 1,
                 audStartTime = 0, audAudioType = ''music'', audDuration = 8000,
                 audId = ''id1'', audName = ''clip.mp4''\<rparr>]\<rparr>,
         [AddedVideoAndAudio ''clip.mp4''])"
  using companion_audio_row [of
      "\<lparr>resultUrl = None, resultFileUrl = None, resultThumbnail = None,
        resultDuration = None, resultKey = None\<rparr>"
      "\<lparr>fileName = ''clip.mp4'', objectUrl = ''blob:clip''\<rparr>"
      "\<lparr>dedicatedImageTrackRow = 0, dedicatedAudioTrackRow = 0,
        dedicatedVideoTrackRow = 0, lastImageEndTime = of_int,
        lastAudioEndTime = 0, lastVideoEndTime = 0,
        addImageLocalThrows = False, addExistingAudioThrows = False,
        handleVideoUploadFromUrlThrows = False, freshId = ''id1'',
        audioEvents = [], probeSrcThrows = False,
        probeEvents =
          [LoadedMetadata \<lparr>videoDuration = Some 8, mozHasAudio = False,
             webkitAudioDecodedByteCount = None, audioTracksLength = Some 1,
             readyState = 1\<rparr>]\<rparr>"
      "\<lparr>durationMs = 8000, hasAudio = True\<rparr>"
      "\<lparr>maxRows = 1, storeCalls = []\<rparr>"]
  by (simp add: getVideoMetadataFromUrl_def probeStart_def onLoaded_def
        detectAudioAndResolve_def cleanup_def clearTimeout_def startsWith_def
        uploadedUrlOf_def dropVideo_def Let_def)

text \<open>
  C4: when the probe of a dropped video reports \<^verbatim>\<open>hasAudio = true\<close>, the call that
  creates the companion audio overlay carries the same start time and the same duration
  as the call that creates the video overlay from that file: the end of the last video,
  and the probed duration.
\<close>

theorem companion_audio_aligned:
  assumes "getVideoMetadataFromUrl (Some (uploadedUrlOf uploadResult file))
             (probeSrcThrows env) (probeEvents env) = Resolved meta"
    and "hasAudio meta"
  shows "\<exists>store' toasts v.
           dropVideo env file uploadResult store = Some (store', toasts) \<and>
           vidStartTime v = lastVideoEndTime env \<and>
           vidDuration v = durationMs meta \<and>
           (if handleVideoUploadFromUrlThrows env then
              storeCalls store' = storeCalls store @ [HandleVideoUploadFromUrl v]
            else
              (\<exists>a. storeCalls store' =
                      storeCalls store @ [HandleVideoUploadFromUrl v, AddExistingAudio a] \<and>
                   audStartTime a = vidStartTime v \<and>
                   audDuration a = vidDuration v \<and>
                   audDurationMs a = vidDuration v))"
  by (simp add: dropVideo_resolved [OF assms(1,2)] Let_def)

theorem companion_audio_aligned_witness:
  "dropVideo
     \<lparr>dedicatedImageTrackRow = 2, dedicatedAudioTrackRow = 1,
      dedicatedVideoTrackRow = 0, lastImageEndTime = of_int,
      lastAudioEndTime = 700, lastVideoEndTime = 3000,
      addImageLocalThrows = False, addExistingAudioThrows = False,
      handleVideoUploadFromUrlThrows = False, freshId = ''id1'',
      audioEvents = [], probeSrcThrows = False,
      probeEvents =
        [LoadedMetadata \<lparr>videoDuration = Some 5, mozHasAudio = True,
           webkitAudioDecodedByteCount = None, audioTracksLength = None,
           readyState = 1\<rparr>]\<rparr>
     \<lparr>fileName = ''clip.mp4'', objectUrl = ''blob:clip''\<rparr>
     \<lparr>resultUrl = Some ''https://cdn/clip.mp4'', resultFileUrl = None,
      resultThumbnail = None, resultDuration = Some 4, resultKey = Some ''k''\<rparr>
     \<lparr>maxRows = 3, storeCalls = []\<rparr> =
   Some (\<lparr>maxRows = 3,
           storeCalls =
             [HandleVideoUploadFromUrl
                \<lparr>vidUrl = ''https://cdn/clip.mp4'', vidTitle = ''clip.mp4'',
                 vidKey = Some ''k'', vidDuration = 5000, vidRow = 0,
                 vidStartTime = 3000, vidIsNeedLoader = False,
                 vidHasSeparateAudio = True\<rparr>,
              AddExistingAudio
                \<lparr>audBase64Audio = ''https://cdn/clip.mp4'', audDurationMs = 5000,
                 audRow = 1, audStartTime = 3000, audAudioType = ''music'',
                 audDuration = 5000, audId = ''id1'', audName = ''clip.mp4''\<rparr>]\<rparr>,
         [AddedVideoAndAudio ''clip.mp4''])"
  using companion_audio_aligned [of
      "\<lparr>resultUrl = Some ''https://cdn/clip.mp4'', resultFileUrl = None,
        resultThumbnail = None, resultDuration = Some 4, resultKey = Some ''k''\<rparr>"
      "\<lparr>fileName = ''clip.mp4'', objectUrl = ''blob:clip''\<rparr>"
      "\<lparr>dedicatedImageTrackRow = 2, dedicatedAudioTrackRow = 1,
        dedicatedVideoTrackRow = 0, lastImageEndTime = of_int,
        lastAudioEndTime = 700, lastVideoEndTime = 3000,
        addImageLocalThrows = False, addExistingAudioThrows = False,
        handleVideoUploadFromUrlThrows = False, freshId = ''id1'',
        audioEvents = [], probeSrcThrows = False,
        probeEvents =
          [LoadedMetadata \<lparr>videoDuration = Some 5, mozHasAudio = True,
             webkitAudioDecodedByteCount = None, audioTracksLength = None,
             readyState = 1\<rparr>]\<rparr>"
      "\<lparr>durationMs = 5000, hasAudio = True\<rparr>"
      "\<lparr>maxRows = 3, storeCalls = []\<rparr>"]
  by (simp add: getVideoMetadataFromUrl_def probeStart_def onLoaded_def
        detectAudioAndResolve_def cleanup_def clearTimeout_def startsWith_def
        uploadedUrlOf_def dropVideo_def Let_def)

lemma audio_timer_armed:
  "audioTimer s = Some n \<Longrightarrow> \<forall>d. AudioTimerFired d \<notin> set events \<Longrightarrow>
   audioTimer (foldl audioStep s events) = Some n"
proof (induction events arbitrary: s)
  case Nil
  then show ?case by simp
next
  case (Cons e events)
  from Cons.prems have "audioTimer (audioStep s e) = Some n"
    by (cases e) auto
  with Cons show ?case by simp
qed

text \<open>
  C8: the duration of a dropped audio file. A numeric duration in the upload result is
  used, times 1000. Otherwise the file is probed with a timer of 5000 ms: a resolved
  probe gives its seconds times 1000, but at least 1000 ms; a rejected probe gives
  5000 ms, and the probe is rejected by an error event and, while no duration is known, by
  the expiry of the timer. The value found is the duration of the audio overlay that
  \<^verbatim>\<open>handleDrop\<close> then creates.
\<close>

theorem audio_duration_order:
  "(resultDuration uploadResult = Some d \<longrightarrow>
      audioDurationMs uploadResult events = Some (d * 1000)) \<and>
   (resultDuration uploadResult = None \<longrightarrow>
      audioTimer audioProbeStart = Some 5000 \<and>
      (getAudioDurationSeconds events = Resolved sec \<longrightarrow>
         audioDurationMs uploadResult events = Some (max 1000 (sec * 1000)) \<and>
         max 1000 (sec * 1000) \<ge> 1000) \<and>
      (getAudioDurationSeconds events = Rejected msg \<longrightarrow>
         audioDurationMs uploadResult events = Some 5000)) \<and>
   (getAudioDurationSeconds events = Pending \<longrightarrow>
      getAudioDurationSeconds (events @ [AudioErrorEvent]) =
        Rejected ''Audio file upload error'' \<and>
      ((\<forall>t. AudioTimerFired t \<notin> set events) \<longrightarrow>
         getAudioDurationSeconds (events @ [AudioTimerFired None]) =
           Rejected ''Audio duration determination timeout'')) \<and>
   (audioDurationMs uploadResult (audioEvents env) = Some ms \<longrightarrow>
      (\<exists>store' toasts a.
         dropAudio env file uploadResult store = Some (store', toasts) \<and>
         storeCalls store' = storeCalls store @ [AddExistingAudio a] \<and>
         audDurationMs a = ms \<and> audDuration a = ms))"
proof (intro conjI impI)
  assume "resultDuration uploadResult = Some d"
  then show "audioDurationMs uploadResult events = Some (d * 1000)"
    by (simp add: audioDurationMs_def)
next
  show "audioTimer audioProbeStart = Some 5000"
    by (simp add: audioProbeStart_def)
next
  assume "resultDuration uploadResult = None"
    and "getAudioDurationSeconds events = Resolved sec"
  then show "audioDurationMs uploadResult events = Some (max 1000 (sec * 1000))"
    by (simp add: audioDurationMs_def)
next
  show "max 1000 (sec * 1000) \<ge> 1000" by simp
next
  assume "resultDuration uploadResult = None"
    and "getAudioDurationSeconds events = Rejected msg"
  then show "audioDurationMs uploadResult events = Some 5000"
    by (simp add: audioDurationMs_def)
next
  assume "getAudioDurationSeconds events = Pending"
  then show "getAudioDurationSeconds (events @ [AudioErrorEvent]) =
               Rejected ''Audio file upload error''"
    by (simp add: getAudioDurationSeconds_def)
next
  assume p: "getAudioDurationSeconds events = Pending"
    and n: "\<forall>t. AudioTimerFired t \<notin> set events"
  have "audioTimer (foldl audioStep audioProbeStart events) = Some 5000"
    using n by (intro audio_timer_armed) (simp_all add: audioProbeStart_def)
  with p show "getAudioDurationSeconds (events @ [AudioTimerFired None]) =
                 Rejected ''Audio duration determination timeout''"
    by (simp add: getAudioDurationSeconds_def)
next
  assume "audioDurationMs uploadResult (audioEvents env) = Some ms"
  then show "\<exists>store' toasts a.
         dropAudio env file uploadResult store = Some (store', toasts) \<and>
         storeCalls store' = storeCalls store @ [AddExistingAudio a] \<and>
         audDurationMs a = ms \<and> audDuration a = ms"
    by (simp add: dropAudio_def Let_def)
qed

theorem audio_duration_order_witness:
  "audioDurationMs \<lparr>resultUrl = None, resultFileUrl = None, resultThumbnail = None,
      resultDuration = Some 3, resultKey = None\<rparr> [AudioErrorEvent] = Some 3000 \<and>
   audioDurationMs \<lparr>resultUrl = None, resultFileUrl = None, resultThumbnail = None,
      resultDuration = None, resultKey = None\<rparr> [AudioLoadedMetadata (Some 7)] =
     Some 7000 \<and>
   audioDurationMs \<lparr>resultUrl = None, resultFileUrl = None, resultThumbnail = None,
      resultDuration = None, resultKey = None\<rparr> [AudioLoadedMetadata (Some (1 / 2))] =
     Some 1000 \<and>
   audioDurationMs \<lparr>resultUrl = None, resultFileUrl = None, resultThumbnail = None,
      resultDuration = None, resultKey = None\<rparr> [AudioErrorEvent] = Some 5000 \<and>
   audioDurationMs \<lparr>resultUrl = None, resultFileUrl = None, resultThumbnail = None,
      resultDuration = None, resultKey = None\<rparr> [AudioTimerFired None] = Some 5000"
  using audio_duration_order [of
      "\<lparr>resultUrl = None, resultFileUrl = None, resultThumbnail = None,
        resultDuration = Some 3, resultKey = None\<rparr>" 3 "[AudioErrorEvent]"]
    audio_duration_order [of
      "\<lparr>resultUrl = None, resultFileUrl = None, resultThumbnail = None,
        resultDuration = None, resultKey = None\<rparr>" 0 "[AudioLoadedMetadata (Some 7)]" 7]
    audio_duration_order [of
      "\<lparr>resultUrl = None, resultFileUrl = None, resultThumbnail = None,
        resultDuration = None, resultKey = None\<rparr>" 0 "[]" 0
      "''Audio file upload error''"]
  by (simp add: audioDurationMs_def getAudioDurationSeconds_def audioProbeStart_def)

end
